theory Spec2Isabelle
  imports Complex_Main "HOL-Library.Sublist"
begin

section \<open>The internet connection logger (main.py)\<close>

text \<open>
  A shallow embedding of \<^verbatim>\<open>InternetMonitor\<close> and of the loop of \<^verbatim>\<open>main\<close>.

  \<^item> The object is a record; every method takes it and returns it updated.
  \<^item> The outside world is an input: the clock readings, what the speed test library
    does when it is called, and what the ping process does when it is run.
  \<^item> A Python exception is a value: a computation that can raise returns
    \<open>py_error + 'a\<close>, and a \<^verbatim>\<open>try/except Exception\<close> is a case distinction on it.
  \<^item> Python floats are modelled by the reals they denote: arithmetic is exact, and
    rounding, overflow, infinities and NaN are outside the model.
  \<^item> A Python string is a list of characters with code points below 256.
  \<^item> What the program prints, and the command line it builds for ping (the host and
    the \<^verbatim>\<open>-n\<close>/\<^verbatim>\<open>-c\<close> flag), are not modelled: the process's answer is the input.
\<close>

datatype py_error =
  ValueError | IndexError | ZeroDivisionError | StatisticsError | OSError | ArrowInvalid

definition bind_err :: "py_error + 'a \<Rightarrow> ('a \<Rightarrow> py_error + 'b) \<Rightarrow> py_error + 'b" where
  "bind_err r f = (case r of Inl e \<Rightarrow> Inl e | Inr x \<Rightarrow> f x)"

subsection \<open>The string methods the parser uses\<close>

text \<open>\<^verbatim>\<open>sub in s\<close>: \<open>sub\<close> occurs in \<open>s\<close>.\<close>

fun str_contains :: "string \<Rightarrow> string \<Rightarrow> bool" where
  "str_contains sub [] = (sub = [])"
| "str_contains sub (c # cs) = (prefix sub (c # cs) \<or> str_contains sub cs)"

text \<open>
  \<^verbatim>\<open>s.split(sep)\<close>: the pieces between the occurrences of \<open>sep\<close>, found from the left
  and not overlapping. \<open>cur\<close> is the piece read so far. Python raises ValueError on
  an empty separator.
\<close>

fun split_from :: "string \<Rightarrow> string \<Rightarrow> string \<Rightarrow> string list" where
  "split_from sep cur [] = [cur]"
| "split_from sep cur (c # cs) =
     (if sep \<noteq> [] \<and> prefix sep (c # cs)
      then cur # split_from sep [] (drop (length sep - 1) cs)
      else split_from sep (cur @ [c]) cs)"

definition str_split :: "string \<Rightarrow> string \<Rightarrow> py_error + string list" where
  "str_split sep s = (if sep = [] then Inl ValueError else Inr (split_from sep [] s))"

text \<open>\<^verbatim>\<open>xs[i]\<close> for an index that is not negative.\<close>

definition py_index :: "'a list \<Rightarrow> nat \<Rightarrow> py_error + 'a" where
  "py_index xs i = (if i < length xs then Inr (xs ! i) else Inl IndexError)"

text \<open>
  The characters below 256 at which \<^verbatim>\<open>str.splitlines\<close> ends a line: LF, VT, FF, CR,
  FS, GS, RS and NEL. A CR followed by LF is one line end.
\<close>

definition is_line_boundary :: "char \<Rightarrow> bool" where
  "is_line_boundary c \<longleftrightarrow>
     c \<in> {CHR 0x0A, CHR 0x0B, CHR 0x0C, CHR 0x0D, CHR 0x1C, CHR 0x1D, CHR 0x1E, CHR 0x85}"

fun splitlines_from :: "string \<Rightarrow> string \<Rightarrow> string list" where
  "splitlines_from cur [] = (if cur = [] then [] else [cur])"
| "splitlines_from cur [c] =
     (if is_line_boundary c then [cur] else [cur @ [c]])"
| "splitlines_from cur (c # d # cs) =
     (if c = CHR 0x0D \<and> d = CHR 0x0A then cur # splitlines_from [] cs
      else if is_line_boundary c then cur # splitlines_from [] (d # cs)
      else splitlines_from (cur @ [c]) (d # cs))"

definition splitlines :: "string \<Rightarrow> string list" where
  "splitlines s = splitlines_from [] s"

text \<open>The characters below 256 that \<^verbatim>\<open>str.strip\<close> removes from both ends.\<close>

definition is_space :: "char \<Rightarrow> bool" where
  "is_space c \<longleftrightarrow>
     c \<in> {CHR 0x09, CHR 0x0A, CHR 0x0B, CHR 0x0C, CHR 0x0D, CHR 0x1C, CHR 0x1D, CHR 0x1E,
          CHR 0x1F, CHR 0x20, CHR 0x85, CHR 0xA0}"

definition str_strip :: "string \<Rightarrow> string" where
  "str_strip s = rev (dropWhile is_space (rev (dropWhile is_space s)))"

subsection \<open>The builtin float\<close>

text \<open>
  \<^verbatim>\<open>float(s)\<close> on a string. The white space it removes from both ends is not that of
  \<^verbatim>\<open>str.strip\<close>: of the characters below 256 these are TAB, LF, VT, FF, CR, the space, NEL
  and the no-break space, and not FS, GS, RS and US.
\<close>

definition is_float_space :: "char \<Rightarrow> bool" where
  "is_float_space c \<longleftrightarrow>
     c \<in> {CHR 0x09, CHR 0x0A, CHR 0x0B, CHR 0x0C, CHR 0x0D, CHR 0x20, CHR 0x85, CHR 0xA0}"

definition float_strip :: "string \<Rightarrow> string" where
  "float_strip s = rev (dropWhile is_float_space (rev (dropWhile is_float_space s)))"

definition is_digit :: "char \<Rightarrow> bool" where
  "is_digit c \<longleftrightarrow> 48 \<le> (of_char c :: nat) \<and> (of_char c :: nat) \<le> 57"

text \<open>A digit part: digits, with single underscores allowed between two of them.\<close>

fun digitpart :: "string \<Rightarrow> bool" where
  "digitpart [] = False"
| "digitpart [c] = is_digit c"
| "digitpart (c # d # cs) =
     (is_digit c \<and> (if d = CHR ''_'' then digitpart cs else digitpart (d # cs)))"

definition digits_value :: "string \<Rightarrow> nat" where
  "digits_value ds = foldl (\<lambda>a c. 10 * a + (of_char c - 48)) 0 (filter is_digit ds)"

text \<open>The number before the exponent: a digit part, a point, a digit part, one of the two
  parts at least.\<close>

definition float_mantissa :: "string \<Rightarrow> real option" where
  "float_mantissa m =
     (let ip = takeWhile (\<lambda>c. c \<noteq> CHR ''.'') m
      in case dropWhile (\<lambda>c. c \<noteq> CHR ''.'') m of
           [] \<Rightarrow> if digitpart ip then Some (real (digits_value ip)) else None
         | dot # fp \<Rightarrow>
             if (ip = [] \<or> digitpart ip) \<and> (fp = [] \<or> digitpart fp) \<and> (ip \<noteq> [] \<or> fp \<noteq> [])
             then Some (real (digits_value ip)
                        + real (digits_value fp) / 10 ^ length (filter is_digit fp))
             else None)"

text \<open>The text after \<^verbatim>\<open>e\<close> or \<^verbatim>\<open>E\<close>: an optional sign and a digit part.\<close>

definition float_exponent :: "string \<Rightarrow> int option" where
  "float_exponent ex =
     (case ex of
        [] \<Rightarrow> None
      | c # cs \<Rightarrow>
          let ds = (if c = CHR ''-'' \<or> c = CHR ''+'' then cs else c # cs)
          in if digitpart ds
             then Some (if c = CHR ''-'' then - int (digits_value ds) else int (digits_value ds))
             else None)"

text \<open>
  The value is the real number the literal denotes; on any other text float raises
  ValueError. Python also accepts \<^verbatim>\<open>inf\<close>, \<^verbatim>\<open>infinity\<close> and \<^verbatim>\<open>nan\<close>, whose values
  are no real numbers: they are not in this model of the builtin, which raises on them.
  The parser below takes the conversion as its parameter \<open>conv\<close>, and the theorems
  about it hold for every conversion.
\<close>

definition py_float :: "string \<Rightarrow> py_error + real" where
  "py_float s =
     (let t = float_strip s;
          signed = (t \<noteq> [] \<and> (hd t = CHR ''-'' \<or> hd t = CHR ''+''));
          sg = (if t \<noteq> [] \<and> hd t = CHR ''-'' then - 1 else 1 :: real);
          u = (if signed then tl t else t);
          is_e = (\<lambda>c. c = CHR ''e'' \<or> c = CHR ''E'')
      in case float_mantissa (takeWhile (\<lambda>c. \<not> is_e c) u) of
           None \<Rightarrow> Inl ValueError
         | Some v \<Rightarrow>
             (case dropWhile (\<lambda>c. \<not> is_e c) u of
                [] \<Rightarrow> Inr (sg * v)
              | e # ex \<Rightarrow>
                  (case float_exponent ex of
                     None \<Rightarrow> Inl ValueError
                   | Some k \<Rightarrow>
                       Inr (sg * v * (if 0 \<le> k then 10 ^ nat k else 1 / 10 ^ nat (- k))))))"

subsection \<open>The statistics module\<close>

text \<open>
  \<^verbatim>\<open>statistics.mean\<close> raises StatisticsError on no data, \<^verbatim>\<open>statistics.stdev\<close>
  (the sample standard deviation, dividing by \<open>n - 1\<close>) on fewer than two points.
\<close>

definition statistics_mean :: "real list \<Rightarrow> py_error + real" where
  "statistics_mean xs =
     (if xs = [] then Inl StatisticsError else Inr (sum_list xs / real (length xs)))"

definition statistics_stdev :: "real list \<Rightarrow> py_error + real" where
  "statistics_stdev xs =
     (if length xs < 2 then Inl StatisticsError
      else let m = sum_list xs / real (length xs)
           in Inr (sqrt (sum_list (map (\<lambda>x. (x - m)\<^sup>2) xs) / real (length xs - 1))))"

subsection \<open>The monitor\<close>

text \<open>One row of the data frame; \<open>None\<close> is Python's \<^verbatim>\<open>None\<close>.\<close>

record sample =
  timestamp :: real
  download_speed :: "real option"
  upload_speed :: "real option"
  ping :: "real option"
  jitter :: "real option"
  packet_loss :: real

record monitor =
  log_file :: string
  speed_test_interval :: real
  last_speed_test :: real
  log_count :: int
  df :: "sample list"

text \<open>
  What is at \<open>log_file\<close> when the monitor is built: nothing, a file that
  \<^verbatim>\<open>read_parquet\<close> raises on (with the exception it raises), or a table.
\<close>

datatype stored = Absent | Unreadable py_error | Parquet "sample list"

definition init_monitor :: "string \<Rightarrow> real \<Rightarrow> stored \<Rightarrow> py_error + monitor" where
  "init_monitor file interval disk =
     (let self = \<lparr>log_file = file, speed_test_interval = interval, last_speed_test = 0,
                  log_count = 0, df = []\<rparr>
      in case disk of
           Parquet rows \<Rightarrow> Inr (self\<lparr>df := rows, log_count := int (length rows)\<rparr>)
         | Unreadable e \<Rightarrow> Inl e
         | Absent \<Rightarrow> Inr self)"

subsection \<open>measure_speed\<close>

text \<open>
  What the speed test library does if it is called: the constructor raises, the
  download raises, the download returns its bits per second and the upload raises, or
  both return.
\<close>

datatype speedtest_run =
  Speedtest_raises | Download_raises | Upload_raises real | Measured real real

text \<open>
  The result is the returned pair, the monitor afterwards, and whether the library was
  called at all. \<open>current_time\<close> is the reading of \<^verbatim>\<open>time.time()\<close>.
\<close>

definition measure_speed ::
  "monitor \<Rightarrow> real \<Rightarrow> speedtest_run \<Rightarrow> (real option \<times> real option) \<times> monitor \<times> bool" where
  "measure_speed self current_time st =
     (if current_time - last_speed_test self < speed_test_interval self
      then ((None, None), self, False)
      else case st of
             Measured d u \<Rightarrow>
               ((Some (d / 1000000), Some (u / 1000000)),
                self\<lparr>last_speed_test := current_time\<rparr>, True)
           | _ \<Rightarrow> ((None, None), self, True))"

subsection \<open>ping_command\<close>

text \<open>What \<^verbatim>\<open>subprocess.run\<close> does: it raises, or returns a return code and the output.\<close>

datatype proc_result = Run_raises | Completed int string

text \<open>The text of a line that is handed to float, on Windows and elsewhere.\<close>

definition windows_token :: "string \<Rightarrow> py_error + string" where
  "windows_token line =
     bind_err (str_split ''time='' line) (\<lambda>p.
     bind_err (py_index p 1) (\<lambda>a.
     bind_err (str_split ''ms'' a) (\<lambda>q.
     bind_err (py_index q 0) (\<lambda>b. Inr (str_strip b)))))"

definition unix_token :: "string \<Rightarrow> py_error + string" where
  "unix_token line =
     bind_err (str_split ''time='' line) (\<lambda>p.
     bind_err (py_index p 1) (\<lambda>a.
     bind_err (str_split '' '' a) (\<lambda>q. py_index q 0)))"

definition line_time ::
  "(string \<Rightarrow> py_error + real) \<Rightarrow> string \<Rightarrow> string \<Rightarrow> py_error + real" where
  "line_time conv system line =
     bind_err (if system = ''windows'' then windows_token line else unix_token line) conv"

text \<open>
  The list comprehension: the lines with \<^verbatim>\<open>time=\<close>, each converted, in order. The
  first conversion that raises ends it.
\<close>

fun parse_times ::
  "(string \<Rightarrow> py_error + real) \<Rightarrow> string \<Rightarrow> string list \<Rightarrow> py_error + real list" where
  "parse_times conv system [] = Inr []"
| "parse_times conv system (line # rest) =
     (if str_contains ''time='' line
      then bind_err (line_time conv system line) (\<lambda>x.
           bind_err (parse_times conv system rest) (\<lambda>xs. Inr (x # xs)))
      else parse_times conv system rest)"

type_synonym ping_result = "real option \<times> real option \<times> real"

text \<open>
  The body of the \<^verbatim>\<open>try\<close>. \<open>system\<close> is \<^verbatim>\<open>platform.system().lower()\<close>, \<open>count\<close> the
  number of probes asked for, \<open>proc\<close> what running the command does.
\<close>

definition ping_try ::
  "(string \<Rightarrow> py_error + real) \<Rightarrow> string \<Rightarrow> int \<Rightarrow> proc_result \<Rightarrow> py_error + ping_result" where
  "ping_try conv system count proc =
     (case proc of
        Run_raises \<Rightarrow> Inl OSError
      | Completed returncode output \<Rightarrow>
          if returncode = 0
          then bind_err (parse_times conv system (splitlines output)) (\<lambda>times.
                 if times \<noteq> []
                 then bind_err (statistics_mean times) (\<lambda>avg_ping.
                      bind_err (if length times > 1 then statistics_stdev times else Inr 0)
                        (\<lambda>jit.
                      if count = 0 then Inl ZeroDivisionError
                      else Inr (Some avg_ping, Some jit,
                                100 - real (length times) / real_of_int count * 100)))
                 else Inr (None, None, 100))
          else Inr (None, None, 100))"

definition ping_command ::
  "monitor \<Rightarrow> (string \<Rightarrow> py_error + real) \<Rightarrow> string \<Rightarrow> int \<Rightarrow> proc_result
     \<Rightarrow> ping_result \<times> monitor" where
  "ping_command self conv system count proc =
     (case ping_try conv system count proc of
        Inl e \<Rightarrow> ((None, None, 100), self)
      | Inr r \<Rightarrow> (r, self))"

subsection \<open>collect_metrics and the loop of main\<close>

text \<open>
  What one pass of the loop meets: the reading of \<^verbatim>\<open>pd.Timestamp.now()\<close>, the reading
  of \<^verbatim>\<open>time.time()\<close>, the speed test library, the ping process, and whether
  \<^verbatim>\<open>to_parquet\<close> succeeds.
\<close>

record tick =
  timestamp_now :: real
  time_time :: real
  speedtest :: speedtest_run
  ping_proc :: proc_result
  to_parquet_ok :: bool

text \<open>\<^verbatim>\<open>collect_metrics\<close> calls \<^verbatim>\<open>ping_command()\<close> with its default count 3.\<close>

definition collect_metrics ::
  "monitor \<Rightarrow> (string \<Rightarrow> py_error + real) \<Rightarrow> string \<Rightarrow> tick \<Rightarrow> monitor" where
  "collect_metrics self conv system t =
     (case measure_speed self (time_time t) (speedtest t) of
        ((download, upload), self1, invoked) \<Rightarrow>
     (case ping_command self1 conv system 3 (ping_proc t) of
        ((png, jit, loss), self2) \<Rightarrow>
          self2\<lparr>df := df self2 @
                   [\<lparr>timestamp = timestamp_now t, download_speed = download,
                     upload_speed = upload, ping = png, jitter = jit,
                     packet_loss = loss\<rparr>],
                log_count := log_count self2 + 1\<rparr>))"

text \<open>\<^verbatim>\<open>save_stats\<close> writes the whole data frame over the file, or raises.\<close>

definition save_stats :: "monitor \<Rightarrow> bool \<Rightarrow> py_error + stored" where
  "save_stats self ok = (if ok then Inr (Parquet (df self)) else Inl OSError)"

text \<open>
  The loop of \<^verbatim>\<open>main\<close> over the passes of a list: collect, print (which reads the
  monitor only), save. An exception of \<^verbatim>\<open>save_stats\<close> leaves the loop and the program.
\<close>

fun main_loop ::
  "(string \<Rightarrow> py_error + real) \<Rightarrow> string \<Rightarrow> monitor \<Rightarrow> stored \<Rightarrow> tick list
     \<Rightarrow> py_error + monitor \<times> stored" where
  "main_loop conv system self disk [] = Inr (self, disk)"
| "main_loop conv system self disk (t # ts) =
     (let self' = collect_metrics self conv system t
      in case save_stats self' (to_parquet_ok t) of
           Inl e \<Rightarrow> Inl e
         | Inr disk' \<Rightarrow> main_loop conv system self' disk' ts)"

text \<open>The monitor \<^verbatim>\<open>main\<close> builds when there is no file yet.\<close>

definition main_monitor :: monitor where
  "main_monitor =
     \<lparr>log_file = ''internet_stats.parquet'', speed_test_interval = 300,
      last_speed_test = 0, log_count = 0, df = []\<rparr>"

text \<open>
  The calls of the speed test library during the loop, in order: the clock reading of
  the call and whether it returned both speeds.
\<close>

fun speed_attempts ::
  "(string \<Rightarrow> py_error + real) \<Rightarrow> string \<Rightarrow> monitor \<Rightarrow> tick list \<Rightarrow> (real \<times> bool) list" where
  "speed_attempts conv system self [] = []"
| "speed_attempts conv system self (t # ts) =
     (case measure_speed self (time_time t) (speedtest t) of
        (r, self1, invoked) \<Rightarrow>
          (if invoked then [(time_time t, fst r \<noteq> None)] else []) @
          (if to_parquet_ok t
           then speed_attempts conv system (collect_metrics self conv system t) ts
           else []))"

text \<open>
  Two readings of the cooldown. In the specification's words every call is at least
  the interval after the call before it. In the code's, every call is at least the
  interval after the call before it when that one returned both speeds.
\<close>

fun attempts_spaced :: "real \<Rightarrow> (real \<times> bool) list \<Rightarrow> bool" where
  "attempts_spaced i (a # b # r) = (i \<le> fst b - fst a \<and> attempts_spaced i (b # r))"
| "attempts_spaced i r = True"

fun spaced_after_success :: "real \<Rightarrow> (real \<times> bool) list \<Rightarrow> bool" where
  "spaced_after_success i (a # b # r) =
     ((if snd a then i \<le> fst b - fst a else True) \<and> spaced_after_success i (b # r))"
| "spaced_after_success i r = True"

section \<open>Properties\<close>

subsection \<open>Auxiliary facts\<close>

lemma bind_err_simps:
  "bind_err (Inl e) f = Inl e" "bind_err (Inr x) f = f x"
  by (simp_all add: bind_err_def)

lemma py_float_values:
  "py_float ''10.0'' = Inr 10" "py_float ''12.0'' = Inr 12" "py_float ''14.0'' = Inr 14"
  "py_float ''12.5'' = Inr 12.5" "py_float ''14'' = Inr 14"
  "py_float ''10,5'' = Inl ValueError" "py_float ''n/a'' = Inl ValueError"
  "py_float ''14ms'' = Inl ValueError"
  by (simp_all add: py_float_def float_strip_def is_float_space_def float_mantissa_def
      float_exponent_def is_digit_def digits_value_def)

lemma measure_speed_keeps:
  "speed_test_interval (fst (snd (measure_speed self now st))) = speed_test_interval self"
  "df (fst (snd (measure_speed self now st))) = df self"
  "log_count (fst (snd (measure_speed self now st))) = log_count self"
  by (simp_all add: measure_speed_def split: speedtest_run.split)

lemma ping_command_self: "snd (ping_command self conv system count proc) = self"
  by (simp add: ping_command_def split: sum.split)

lemma collect_metrics_df:
  "\<exists>row. df (collect_metrics self conv system t) = df self @ [row]"
  using measure_speed_keeps(2) [of self "time_time t" "speedtest t"]
    ping_command_self [of "fst (snd (measure_speed self (time_time t) (speedtest t)))" conv system 3 "ping_proc t"]
  by (auto simp: collect_metrics_def split: prod.splits)

lemma collect_metrics_log_count:
  "log_count (collect_metrics self conv system t) = log_count self + 1"
  using measure_speed_keeps(3) [of self "time_time t" "speedtest t"]
    ping_command_self [of "fst (snd (measure_speed self (time_time t) (speedtest t)))" conv system 3 "ping_proc t"]
  by (auto simp: collect_metrics_def split: prod.splits)

lemma collect_metrics_interval:
  "speed_test_interval (collect_metrics self conv system t) = speed_test_interval self"
  using measure_speed_keeps(1) [of self "time_time t" "speedtest t"]
    ping_command_self [of "fst (snd (measure_speed self (time_time t) (speedtest t)))" conv system 3 "ping_proc t"]
  by (auto simp: collect_metrics_def split: prod.splits)

lemma collect_metrics_last:
  "last_speed_test (collect_metrics self conv system t) =
     last_speed_test (fst (snd (measure_speed self (time_time t) (speedtest t))))"
  using ping_command_self [of "fst (snd (measure_speed self (time_time t) (speedtest t)))" conv system 3 "ping_proc t"]
  by (auto simp: collect_metrics_def split: prod.splits)


subsection \<open>The speed test and its cooldown\<close>

lemma spaced_after_success_Cons:
  "spaced_after_success i (a # tr) =
     ((tr = [] \<or> \<not> snd a \<or> i \<le> fst (hd tr) - fst a) \<and> spaced_after_success i tr)"
  by (cases tr) auto

lemma speed_attempts_spaced:
  "spaced_after_success (speed_test_interval self) (speed_attempts conv system self ticks) \<and>
   (speed_attempts conv system self ticks = [] \<or>
    speed_test_interval self \<le> fst (hd (speed_attempts conv system self ticks)) - last_speed_test self)"
proof (induction ticks arbitrary: self)
  case Nil
  show ?case by simp
next
  case (Cons t ts)
  let ?self' = "collect_metrics self conv system t"
  note IH = Cons.IH [of ?self', unfolded collect_metrics_interval collect_metrics_last]
  show ?case
  proof (cases "time_time t - last_speed_test self < speed_test_interval self")
    case True
    then show ?thesis using IH
      by (simp add: measure_speed_def)
  next
    case False
    then show ?thesis using IH
      by (cases "speedtest t")
         (auto simp: measure_speed_def spaced_after_success_Cons)
  qed
qed

text \<open>
  Claim C1, as the code has it. Over every run of the loop, a call of the speed test
  library is at least the configured interval after the call before it whenever that
  earlier call returned both speeds. \<open>last_speed_test\<close> becomes the clock reading exactly
  when \<open>measure_speed\<close> calls the library and the call returns both speeds; a call that
  raises leaves it as it was.
\<close>
theorem cooldown_after_success:
  "spaced_after_success (speed_test_interval self) (speed_attempts conv system self ticks) \<and>
   last_speed_test (fst (snd (measure_speed self now st))) =
     (if snd (snd (measure_speed self now st)) \<and> fst (fst (measure_speed self now st)) \<noteq> None
      then now else last_speed_test self)"
proof
  show "spaced_after_success (speed_test_interval self) (speed_attempts conv system self ticks)"
    using speed_attempts_spaced [of self conv system ticks] by blast
  show "last_speed_test (fst (snd (measure_speed self now st))) =
     (if snd (snd (measure_speed self now st)) \<and> fst (fst (measure_speed self now st)) \<noteq> None
      then now else last_speed_test self)"
    by (simp add: measure_speed_def split: speedtest_run.split)
qed

text \<open>
  A run of four passes at 1000, 1001, 1300 and 1301 seconds with the interval 300: the
  library is called at 1000 (success), not at 1001, at 1300 (failure) and again at 1301.
\<close>
theorem cooldown_after_success_witness:
  "speed_attempts py_float ''linux'' main_monitor
     [\<lparr>timestamp_now = 1000, time_time = 1000, speedtest = Measured 50000000 10000000,
       ping_proc = Run_raises, to_parquet_ok = True\<rparr>,
      \<lparr>timestamp_now = 1001, time_time = 1001, speedtest = Measured 50000000 10000000,
       ping_proc = Run_raises, to_parquet_ok = True\<rparr>,
      \<lparr>timestamp_now = 1300, time_time = 1300, speedtest = Download_raises,
       ping_proc = Run_raises, to_parquet_ok = True\<rparr>,
      \<lparr>timestamp_now = 1301, time_time = 1301, speedtest = Measured 50000000 10000000,
       ping_proc = Run_raises, to_parquet_ok = True\<rparr>]
     = [(1000, True), (1300, False), (1301, True)] \<and>
   spaced_after_success 300 [(1000, True), (1300, False), (1301, True)] \<and>
   last_speed_test (fst (snd (measure_speed main_monitor 1000 (Measured 50000000 10000000)))) = 1000 \<and>
   last_speed_test (fst (snd (measure_speed main_monitor 1000 Download_raises))) = 0"
  using cooldown_after_success [of main_monitor py_float "''linux''"
     "[\<lparr>timestamp_now = 1000, time_time = 1000, speedtest = Measured 50000000 10000000,
       ping_proc = Run_raises, to_parquet_ok = True\<rparr>,
      \<lparr>timestamp_now = 1001, time_time = 1001, speedtest = Measured 50000000 10000000,
       ping_proc = Run_raises, to_parquet_ok = True\<rparr>,
      \<lparr>timestamp_now = 1300, time_time = 1300, speedtest = Download_raises,
       ping_proc = Run_raises, to_parquet_ok = True\<rparr>,
      \<lparr>timestamp_now = 1301, time_time = 1301, speedtest = Measured 50000000 10000000,
       ping_proc = Run_raises, to_parquet_ok = True\<rparr>]" 1000 Download_raises]
  by (simp add: main_monitor_def measure_speed_def collect_metrics_def ping_command_def
      ping_try_def)

text \<open>
  Claim C1 as the specification words it fails: with the interval 300, two passes one
  second apart whose speed tests both raise each call the library, and the failed call
  at 1000 leaves \<open>last_speed_test\<close> at 0.
\<close>
theorem failed_attempt_no_cooldown:
  "speed_attempts py_float ''linux'' main_monitor
     [\<lparr>timestamp_now = 1000, time_time = 1000, speedtest = Download_raises,
       ping_proc = Run_raises, to_parquet_ok = True\<rparr>,
      \<lparr>timestamp_now = 1001, time_time = 1001, speedtest = Download_raises,
       ping_proc = Run_raises, to_parquet_ok = True\<rparr>]
     = [(1000, False), (1001, False)] \<and>
   \<not> attempts_spaced (speed_test_interval main_monitor) [(1000, False), (1001, False)] \<and>
   snd (snd (measure_speed main_monitor 1000 Download_raises)) \<and>
   last_speed_test (fst (snd (measure_speed main_monitor 1000 Download_raises))) \<noteq> 1000"
  by (simp add: main_monitor_def measure_speed_def collect_metrics_def ping_command_def
      ping_try_def)

text \<open>
  Claim C6, as the code has it. When less than the interval has passed since
  \<open>last_speed_test\<close>, the time of the last speed test that returned both speeds,
  \<open>measure_speed\<close> returns \<open>(None, None)\<close>, leaves the monitor as it is and does not
  call the speed test library, whatever the library would have done.
\<close>
theorem not_due_no_probe:
  "current_time - last_speed_test self < speed_test_interval self \<Longrightarrow>
   measure_speed self current_time st = ((None, None), self, False)"
  by (simp add: measure_speed_def)

text \<open>One second after a speed test at 1000, with the interval 300.\<close>
theorem not_due_no_probe_witness:
  "(1001::real) - last_speed_test (main_monitor\<lparr>last_speed_test := 1000\<rparr>)
     < speed_test_interval (main_monitor\<lparr>last_speed_test := 1000\<rparr>) \<and>
   measure_speed (main_monitor\<lparr>last_speed_test := 1000\<rparr>) 1001 (Measured 50000000 10000000)
     = ((None, None), main_monitor\<lparr>last_speed_test := 1000\<rparr>, False)"
proof -
  have h: "(1001::real) - last_speed_test (main_monitor\<lparr>last_speed_test := 1000\<rparr>)
     < speed_test_interval (main_monitor\<lparr>last_speed_test := 1000\<rparr>)"
    by (simp add: main_monitor_def)
  show ?thesis using h not_due_no_probe [OF h] by simp
qed

text \<open>
  Claim C6 as the specification words it fails. The speed test at 1000 raises, which is
  an attempt; one second later, with the interval 300, \<open>measure_speed\<close> calls the library
  again and returns both speeds.
\<close>
theorem failed_attempt_probed_again:
  "measure_speed main_monitor 1000 Download_raises = ((None, None), main_monitor, True) \<and>
   (1001::real) - 1000 < speed_test_interval main_monitor \<and>
   measure_speed (fst (snd (measure_speed main_monitor 1000 Download_raises))) 1001
       (Measured 50000000 10000000)
     = ((Some 50, Some 10), main_monitor\<lparr>last_speed_test := 1001\<rparr>, True)"
  by (simp add: measure_speed_def main_monitor_def)

text \<open>
  Claim C8. \<open>measure_speed\<close> returns two numbers or \<open>(None, None)\<close> on every path, also
  when the download returns and the upload raises; so the row a pass appends has both
  speeds or neither.
\<close>
theorem speeds_paired:
  "((\<exists>d u. fst (measure_speed self now st) = (Some d, Some u)) \<or>
    fst (measure_speed self now st) = (None, None)) \<and>
   fst (measure_speed self now (Upload_raises d)) = (None, None) \<and>
   (download_speed (last (df (collect_metrics self conv system t))) = None) =
   (upload_speed (last (df (collect_metrics self conv system t))) = None)"
proof -
  have a: "(\<exists>d u. fst (measure_speed self now st) = (Some d, Some u)) \<or>
    fst (measure_speed self now st) = (None, None)" for self now st
  proof (cases st)
    case (Measured x y)
    show ?thesis
    proof (cases "now - last_speed_test self < speed_test_interval self")
      case True
      then show ?thesis by (simp add: measure_speed_def)
    next
      case False
      then have "fst (measure_speed self now st) = (Some (x / 1000000), Some (y / 1000000))"
        by (simp add: measure_speed_def Measured)
      then show ?thesis by blast
    qed
  qed (simp_all add: measure_speed_def)
  have b: "fst (measure_speed self now (Upload_raises d)) = (None, None)"
    by (simp add: measure_speed_def)
  have c: "(download_speed (last (df (collect_metrics self conv system t))) = None) =
   (upload_speed (last (df (collect_metrics self conv system t))) = None)"
    using a [of self "time_time t" "speedtest t"]
    by (auto simp: collect_metrics_def split: prod.splits)
  from a b c show ?thesis by blast
qed

text \<open>An upload that raises after a download of 50 Mbit/s, and a full measurement.\<close>
theorem speeds_paired_witness:
  "fst (measure_speed main_monitor 1000 (Upload_raises 50000000)) = (None, None) \<and>
   fst (measure_speed main_monitor 1000 (Measured 50000000 10000000)) = (Some 50, Some 10)"
  using speeds_paired [of main_monitor 1000 "Measured 50000000 10000000" 50000000 py_float
      "''linux''" "\<lparr>timestamp_now = 1000, time_time = 1000, speedtest = Download_raises,
       ping_proc = Run_raises, to_parquet_ok = True\<rparr>"]
  by (simp add: main_monitor_def measure_speed_def)

subsection \<open>The series and its counter\<close>

lemma main_loop_df:
  "main_loop conv system self disk ticks = Inr (self', disk') \<Longrightarrow>
   \<exists>new. df self' = df self @ new \<and> length new = length ticks"
proof (induction ticks arbitrary: self disk)
  case Nil
  then show ?case by simp
next
  case (Cons t ts)
  let ?s = "collect_metrics self conv system t"
  from Cons.prems have ok: "to_parquet_ok t"
    by (auto simp: save_stats_def Let_def split: if_splits)
  with Cons.prems have "main_loop conv system ?s (Parquet (df ?s)) ts = Inr (self', disk')"
    by (simp add: save_stats_def Let_def)
  from Cons.IH [OF this] obtain new where
    new: "df self' = df ?s @ new" "length new = length ts" by blast
  obtain row where "df ?s = df self @ [row]"
    using collect_metrics_df [of self conv system t] by blast
  with new have "df self' = df self @ (row # new) \<and> length (row # new) = length (t # ts)"
    by simp
  then show ?case by blast
qed

lemma main_loop_log_count:
  "main_loop conv system self disk ticks = Inr (self', disk') \<Longrightarrow>
   log_count self = int (length (df self)) \<Longrightarrow>
   log_count self' = int (length (df self'))"
proof (induction ticks arbitrary: self disk)
  case Nil
  then show ?case by simp
next
  case (Cons t ts)
  let ?s = "collect_metrics self conv system t"
  from Cons.prems(1) have ok: "to_parquet_ok t"
    by (auto simp: save_stats_def Let_def split: if_splits)
  with Cons.prems(1) have run: "main_loop conv system ?s (Parquet (df ?s)) ts = Inr (self', disk')"
    by (simp add: save_stats_def Let_def)
  obtain row where "df ?s = df self @ [row]"
    using collect_metrics_df [of self conv system t] by blast
  with Cons.prems(2) have "log_count ?s = int (length (df ?s))"
    by (simp add: collect_metrics_log_count)
  from Cons.IH [OF run this] show ?case .
qed

text \<open>
  Claim C5. A run of the loop over N passes that none of them leaves (every
  \<^verbatim>\<open>save_stats\<close> succeeds) ends with a data frame of the old length plus N whose first
  rows are the old rows, unchanged and in order; one call of \<open>collect_metrics\<close> appends
  exactly one row to the rows it found.
\<close>
theorem one_sample_per_tick:
  assumes "main_loop conv system self disk ticks = Inr (self', disk')"
  shows "length (df self') = length (df self) + length ticks \<and>
         take (length (df self)) (df self') = df self \<and>
         length (df (collect_metrics self conv system t)) = length (df self) + 1 \<and>
         take (length (df self)) (df (collect_metrics self conv system t)) = df self"
proof -
  obtain new where "df self' = df self @ new" "length new = length ticks"
    using main_loop_df [OF assms] by blast
  moreover obtain row where "df (collect_metrics self conv system t) = df self @ [row]"
    using collect_metrics_df [of self conv system t] by blast
  ultimately show ?thesis by simp
qed

text \<open>
  Two passes from the empty data frame: two rows, and the file holds both.
\<close>
theorem one_sample_per_tick_witness:
  "main_loop py_float ''linux'' main_monitor Absent
     [\<lparr>timestamp_now = 1000, time_time = 1000, speedtest = Download_raises,
       ping_proc = Run_raises, to_parquet_ok = True\<rparr>,
      \<lparr>timestamp_now = 1001, time_time = 1001, speedtest = Download_raises,
       ping_proc = Completed 1 [], to_parquet_ok = True\<rparr>]
   = Inr (main_monitor\<lparr>df := [\<lparr>timestamp = 1000, download_speed = None, upload_speed = None,
                                 ping = None, jitter = None, packet_loss = 100\<rparr>,
                                \<lparr>timestamp = 1001, download_speed = None, upload_speed = None,
                                 ping = None, jitter = None, packet_loss = 100\<rparr>],
                         log_count := 2\<rparr>,
          Parquet [\<lparr>timestamp = 1000, download_speed = None, upload_speed = None,
                    ping = None, jitter = None, packet_loss = 100\<rparr>,
                   \<lparr>timestamp = 1001, download_speed = None, upload_speed = None,
                    ping = None, jitter = None, packet_loss = 100\<rparr>]) \<and>
   length (df (main_monitor\<lparr>df := [\<lparr>timestamp = 1000, download_speed = None,
                                 upload_speed = None,
                                 ping = None, jitter = None, packet_loss = 100\<rparr>,
                                \<lparr>timestamp = 1001, download_speed = None, upload_speed = None,
                                 ping = None, jitter = None, packet_loss = 100\<rparr>],
                         log_count := 2\<rparr>)) = length (df main_monitor) + 2"
proof -
  have run: "main_loop py_float ''linux'' main_monitor Absent
     [\<lparr>timestamp_now = 1000, time_time = 1000, speedtest = Download_raises,
       ping_proc = Run_raises, to_parquet_ok = True\<rparr>,
      \<lparr>timestamp_now = 1001, time_time = 1001, speedtest = Download_raises,
       ping_proc = Completed 1 [], to_parquet_ok = True\<rparr>]
   = Inr (main_monitor\<lparr>df := [\<lparr>timestamp = 1000, download_speed = None, upload_speed = None,
                                 ping = None, jitter = None, packet_loss = 100\<rparr>,
                                \<lparr>timestamp = 1001, download_speed = None, upload_speed = None,
                                 ping = None, jitter = None, packet_loss = 100\<rparr>],
                         log_count := 2\<rparr>,
          Parquet [\<lparr>timestamp = 1000, download_speed = None, upload_speed = None,
                    ping = None, jitter = None, packet_loss = 100\<rparr>,
                   \<lparr>timestamp = 1001, download_speed = None, upload_speed = None,
                    ping = None, jitter = None, packet_loss = 100\<rparr>])"
    by (simp add: main_monitor_def measure_speed_def collect_metrics_def ping_command_def
        ping_try_def save_stats_def)
  show ?thesis
    using run one_sample_per_tick [OF run, of "\<lparr>timestamp_now = 1000, time_time = 1000,
       speedtest = Download_raises, ping_proc = Run_raises, to_parquet_ok = True\<rparr>"]
    by simp
qed

text \<open>
  Claim C10. A monitor as \<^verbatim>\<open>__init__\<close> builds it has \<open>log_count\<close> equal to the number of
  rows of its data frame; after any run of the loop it is so again; and one call of
  \<open>collect_metrics\<close> adds one to the counter and one row to the data frame.
\<close>
theorem log_count_is_length:
  assumes "init_monitor file interval disk0 = Inr self"
    and "main_loop conv system self disk ticks = Inr (self', disk')"
  shows "log_count self = int (length (df self)) \<and>
         log_count self' = int (length (df self')) \<and>
         log_count (collect_metrics self' conv system t) = log_count self' + 1 \<and>
         length (df (collect_metrics self' conv system t)) = length (df self') + 1"
proof -
  from assms(1) have init: "log_count self = int (length (df self))"
    by (cases disk0) (auto simp: init_monitor_def Let_def)
  have "log_count self' = int (length (df self'))"
    using main_loop_log_count [OF assms(2) init] .
  moreover obtain row where "df (collect_metrics self' conv system t) = df self' @ [row]"
    using collect_metrics_df [of self' conv system t] by blast
  ultimately show ?thesis using init by (simp add: collect_metrics_log_count)
qed

text \<open>
  A file of one row is loaded, then one pass runs: the counter reads 2.
\<close>
theorem log_count_is_length_witness:
  "init_monitor ''internet_stats.parquet'' 300
     (Parquet [\<lparr>timestamp = 900, download_speed = None, upload_speed = None,
               ping = Some 12, jitter = Some 2, packet_loss = 0\<rparr>])
   = Inr (main_monitor\<lparr>df := [\<lparr>timestamp = 900, download_speed = None, upload_speed = None,
               ping = Some 12, jitter = Some 2, packet_loss = 0\<rparr>], log_count := 1\<rparr>) \<and>
   log_count (fst (projr (main_loop py_float ''linux''
     (main_monitor\<lparr>df := [\<lparr>timestamp = 900, download_speed = None, upload_speed = None,
               ping = Some 12, jitter = Some 2, packet_loss = 0\<rparr>], log_count := 1\<rparr>)
     (Parquet [\<lparr>timestamp = 900, download_speed = None, upload_speed = None,
               ping = Some 12, jitter = Some 2, packet_loss = 0\<rparr>])
     [\<lparr>timestamp_now = 1000, time_time = 1000, speedtest = Download_raises,
       ping_proc = Run_raises, to_parquet_ok = True\<rparr>]))) = 2"
proof -
  let ?row = "\<lparr>timestamp = 900, download_speed = None, upload_speed = None,
               ping = Some 12, jitter = Some 2, packet_loss = 0\<rparr>"
  let ?new = "\<lparr>timestamp = 1000, download_speed = None, upload_speed = None,
               ping = None, jitter = None, packet_loss = 100\<rparr>"
  let ?t = "\<lparr>timestamp_now = 1000, time_time = 1000, speedtest = Download_raises,
       ping_proc = Run_raises, to_parquet_ok = True\<rparr>"
  have init: "init_monitor ''internet_stats.parquet'' 300 (Parquet [?row])
     = Inr (main_monitor\<lparr>df := [?row], log_count := 1\<rparr>)"
    by (simp add: init_monitor_def main_monitor_def)
  have run: "main_loop py_float ''linux'' (main_monitor\<lparr>df := [?row], log_count := 1\<rparr>)
      (Parquet [?row]) [?t]
    = Inr (main_monitor\<lparr>df := [?row, ?new], log_count := 2\<rparr>, Parquet [?row, ?new])"
    by (simp add: main_monitor_def measure_speed_def collect_metrics_def ping_command_def
        ping_try_def save_stats_def)
  show ?thesis
    using init run log_count_is_length [OF init run, of ?t]
    by simp
qed

subsection \<open>The latency parser\<close>

lemma ping_try_times:
  assumes "parse_times conv system (splitlines output) = Inr rtts"
    and "rtts \<noteq> []" and "count \<noteq> 0"
  shows "ping_try conv system count (Completed 0 output) =
           Inr (Some (sum_list rtts / real (length rtts)),
                Some (if 1 < length rtts
                      then sqrt (sum_list (map (\<lambda>x. (x - sum_list rtts / real (length rtts))\<^sup>2)
                                   rtts) / real (length rtts - 1))
                      else 0),
                100 - real (length rtts) / real_of_int count * 100)"
  using assms
  by (simp add: ping_try_def bind_err_simps statistics_mean_def statistics_stdev_def Let_def)

lemma parse_times_raises:
  assumes "line \<in> set lines" and "str_contains ''time='' line"
    and "line_time conv system line = Inl e"
  shows "\<exists>e'. parse_times conv system lines = Inl e'"
  using assms(1)
proof (induction lines)
  case Nil
  then show ?case by simp
next
  case (Cons l ls)
  show ?case
  proof (cases "str_contains ''time='' l")
    case False
    with Cons assms(2) show ?thesis by auto
  next
    case True
    show ?thesis
    proof (cases "line_time conv system l")
      case (Inl a)
      with True show ?thesis by (simp add: bind_err_simps)
    next
      case (Inr x)
      with assms(3) have "l \<noteq> line" by auto
      with Cons obtain e' where "parse_times conv system ls = Inl e'" by auto
      with True Inr show ?thesis by (simp add: bind_err_simps)
    qed
  qed
qed


lemma ping_try_no_times:
  assumes "parse_times conv system (splitlines output) = Inr [] \<or>
           (\<exists>e. parse_times conv system (splitlines output) = Inl e)"
  shows "fst (ping_command self conv system count (Completed rc output)) = (None, None, 100)"
  using assms
  by (auto simp: ping_command_def ping_try_def bind_err_simps split: sum.splits)




lemma line_time_platform:
  "(system1 = ''windows'') = (system2 = ''windows'') \<Longrightarrow>
   line_time conv system1 line = line_time conv system2 line"
  by (simp add: line_time_def)

lemma parse_times_platform:
  "(system1 = ''windows'') = (system2 = ''windows'') \<Longrightarrow>
   parse_times conv system1 lines = parse_times conv system2 lines"
  by (induction lines) (simp_all add: line_time_platform [of system1 system2])

text \<open>
  Claim C2. When the command returned 0 and the comprehension gave the non-empty list
  \<open>rtts\<close> of round-trip times, the packet loss returned is
  \<open>100 * (1 - len(rtts) / count)\<close>, for every count other than 0 (where the division
  raises): 50 for two times of four probes, 0 when every probe gave a time.
\<close>
theorem packet_loss_formula:
  assumes "parse_times conv system (splitlines output) = Inr rtts"
    and "rtts \<noteq> []" and "count \<noteq> 0"
  shows "snd (snd (fst (ping_command self conv system count (Completed 0 output)))) =
           100 * (1 - real (length rtts) / real_of_int count) \<and>
         (length rtts = 2 \<and> count = 4 \<longrightarrow>
            snd (snd (fst (ping_command self conv system count (Completed 0 output)))) = 50) \<and>
         (int (length rtts) = count \<longrightarrow>
            snd (snd (fst (ping_command self conv system count (Completed 0 output)))) = 0)"
proof -
  let ?loss = "snd (snd (fst (ping_command self conv system count (Completed 0 output))))"
  have loss: "?loss = 100 - real (length rtts) / real_of_int count * 100"
    using ping_try_times [OF assms] by (simp add: ping_command_def)
  have a: "100 - real (length rtts) / real_of_int count * 100 =
           100 * (1 - real (length rtts) / real_of_int count)"
    by (simp add: algebra_simps)
  have b: "100 - real (length rtts) / real_of_int count * 100 = 50"
    if "length rtts = 2 \<and> count = 4"
    using that by simp
  have c: "100 - real (length rtts) / real_of_int count * 100 = 0"
    if "int (length rtts) = count"
    using that assms(3) by auto
  have 1: "?loss = 100 * (1 - real (length rtts) / real_of_int count)"
    using loss a by (rule trans)
  have 2: "?loss = 50" if "length rtts = 2 \<and> count = 4"
    using loss b [OF that] by (rule trans)
  have 3: "?loss = 0" if "int (length rtts) = count"
    using loss c [OF that] by (rule trans)
  from 1 2 3 show ?thesis by blast
qed

text \<open>
  Four probes of which the first and the third answered.
\<close>
theorem packet_loss_formula_witness:
  "parse_times py_float ''linux''
     (splitlines (''icmp_seq=1 time=10.0 ms'' @ [CHR 0x0A] @ ''icmp_seq=3 time=12.5 ms''
                  @ [CHR 0x0A] @ ''4 packets transmitted, 2 received'' @ [CHR 0x0A]))
     = Inr [10, 12.5] \<and>
   snd (snd (fst (ping_command main_monitor py_float ''linux'' 4
     (Completed 0 (''icmp_seq=1 time=10.0 ms'' @ [CHR 0x0A] @ ''icmp_seq=3 time=12.5 ms''
                  @ [CHR 0x0A] @ ''4 packets transmitted, 2 received'' @ [CHR 0x0A]))))) = 50"
proof -
  have p: "parse_times py_float ''linux''
     (splitlines (''icmp_seq=1 time=10.0 ms'' @ [CHR 0x0A] @ ''icmp_seq=3 time=12.5 ms''
                  @ [CHR 0x0A] @ ''4 packets transmitted, 2 received'' @ [CHR 0x0A]))
     = Inr [10, 12.5]"
    by (simp add: splitlines_def is_line_boundary_def line_time_def unix_token_def
        bind_err_def str_split_def py_index_def py_float_values)
  show ?thesis
    using p packet_loss_formula [OF p, of 4 main_monitor] by simp
qed

text \<open>
  Claim C7. On a non-empty list of round-trip times the ping returned is their
  arithmetic mean; the jitter is their sample standard deviation (the root of the sum of
  the squared distances to the mean over \<open>n - 1\<close>) when there are two or more, and 0
  when there is one. As for C2, the count is not 0.
\<close>
theorem ping_is_mean_jitter_is_stdev:
  assumes "parse_times conv system (splitlines output) = Inr rtts"
    and "rtts \<noteq> []" and "count \<noteq> 0"
  shows "fst (fst (ping_command self conv system count (Completed 0 output))) =
           Some (sum_list rtts / real (length rtts)) \<and>
         fst (snd (fst (ping_command self conv system count (Completed 0 output)))) =
           Some (if 2 \<le> length rtts
                 then sqrt (sum_list (map (\<lambda>x. (x - sum_list rtts / real (length rtts))\<^sup>2) rtts)
                            / (real (length rtts) - 1))
                 else 0)"
proof -
  have "real (length rtts - 1) = real (length rtts) - 1"
    using assms(2) by (cases rtts) simp_all
  then show ?thesis
    using ping_try_times [OF assms]
    by (auto simp: ping_command_def)
qed

text \<open>
  The specification's example: 10.0, 12.0 and 14.0 ms with three probes give the ping
  12, the jitter 2 and no loss.
\<close>
theorem ping_is_mean_jitter_is_stdev_witness:
  "fst (ping_command main_monitor py_float ''linux'' 3
     (Completed 0 (''time=10.0 ms'' @ [CHR 0x0A] @ ''time=12.0 ms'' @ [CHR 0x0A]
                   @ ''time=14.0 ms''))) = (Some 12, Some 2, 0)"
proof -
  have p: "parse_times py_float ''linux''
     (splitlines (''time=10.0 ms'' @ [CHR 0x0A] @ ''time=12.0 ms'' @ [CHR 0x0A]
                   @ ''time=14.0 ms'')) = Inr [10, 12, 14]"
    by (simp add: splitlines_def is_line_boundary_def line_time_def unix_token_def
        bind_err_def str_split_def py_index_def py_float_values)
  have l: "snd (snd (fst (ping_command main_monitor py_float ''linux'' 3
     (Completed 0 (''time=10.0 ms'' @ [CHR 0x0A] @ ''time=12.0 ms'' @ [CHR 0x0A]
                   @ ''time=14.0 ms''))))) = 0"
    using ping_try_times [OF p, of 3] by (simp add: ping_command_def)
  have "sqrt 4 = 2"
    using real_sqrt_abs [of 2] by simp
  then show ?thesis
    using l ping_is_mean_jitter_is_stdev [OF p, of 3 main_monitor]
    by (simp add: prod_eq_iff)
qed



text \<open>
  Claim C3, as the code has it. When a line with \<^verbatim>\<open>time=\<close> hands float a text it
  raises on, the comprehension ends there, the handler of \<open>ping_command\<close> takes over,
  and the measurement is \<open>(None, None, 100)\<close> whatever the other lines hold.
\<close>
theorem unparsable_time_aborts:
  assumes "line \<in> set (splitlines output)"
    and "str_contains ''time='' line"
    and "(if system = ''windows'' then windows_token line else unix_token line) = Inr tok"
    and "conv tok = Inl e"
  shows "fst (ping_command self conv system count (Completed rc output)) = (None, None, 100)"
proof -
  from assms(3,4) have "line_time conv system line = Inl e"
    by (simp add: line_time_def bind_err_simps)
  from parse_times_raises [OF assms(1,2) this]
  have "parse_times conv system (splitlines output) = Inr [] \<or>
        (\<exists>e. parse_times conv system (splitlines output) = Inl e)"
    by blast
  then show ?thesis by (rule ping_try_no_times)
qed

text \<open>
  A reply of 10.0 ms followed by a reply printed with a decimal comma.
\<close>
theorem unparsable_time_aborts_witness:
  "fst (ping_command main_monitor py_float ''linux'' 3
     (Completed 0 (''icmp_seq=1 time=10.0 ms'' @ [CHR 0x0A] @ ''icmp_seq=2 time=10,5 ms'')))
   = (None, None, 100)"
proof -
  let ?out = "''icmp_seq=1 time=10.0 ms'' @ [CHR 0x0A] @ ''icmp_seq=2 time=10,5 ms''"
  have 1: "''icmp_seq=2 time=10,5 ms'' \<in> set (splitlines ?out)"
    by (simp add: splitlines_def is_line_boundary_def)
  have 2: "str_contains ''time='' ''icmp_seq=2 time=10,5 ms''"
    by simp
  have 3: "(if ''linux'' = ''windows'' then windows_token ''icmp_seq=2 time=10,5 ms''
            else unix_token ''icmp_seq=2 time=10,5 ms'') = Inr ''10,5''"
    by (simp add: unix_token_def bind_err_def str_split_def py_index_def)
  have 4: "py_float ''10,5'' = Inl ValueError"
    by (simp add: py_float_values)
  from unparsable_time_aborts [where conv = py_float and tok = "''10,5''", OF 1 2 3 4]
  show ?thesis .
qed

text \<open>
  Claim C3 as the specification words it fails. On the output of the witness the
  second line's text \<^verbatim>\<open>10,5\<close> does not convert and the result is
  \<open>(None, None, 100)\<close>, while the first line alone gives the ping 10, the jitter 0 and
  the loss of two probes in three.
\<close>
theorem unparsable_time_not_dropped:
  "unix_token ''icmp_seq=2 time=10,5 ms'' = Inr ''10,5'' \<and>
   py_float ''10,5'' = Inl ValueError \<and>
   fst (ping_command main_monitor py_float ''linux'' 3
     (Completed 0 (''icmp_seq=1 time=10.0 ms'' @ [CHR 0x0A] @ ''icmp_seq=2 time=10,5 ms'')))
   = (None, None, 100) \<and>
   fst (ping_command main_monitor py_float ''linux'' 3
     (Completed 0 ''icmp_seq=1 time=10.0 ms''))
   = (Some 10, Some 0, 200 / 3)"
  by (simp add: ping_command_def ping_try_def splitlines_def is_line_boundary_def
      line_time_def unix_token_def bind_err_def str_split_def py_index_def py_float_values statistics_mean_def)

text \<open>
  Claim C9, as the code has it. The three values \<open>ping_command\<close> returns are fixed by
  the answer of the process, the count and whether the platform is Windows: they are
  the same from any two monitors and under any two platform names that agree on being
  \<^verbatim>\<open>windows\<close>; the monitor comes back as it went in; and a second evaluation after the
  first gives the first's result.
\<close>
theorem ping_command_fixed_by_inputs:
  assumes "(system1 = ''windows'') = (system2 = ''windows'')"
  shows "fst (ping_command self1 conv system1 count proc) =
         fst (ping_command self2 conv system2 count proc) \<and>
         snd (ping_command self1 conv system1 count proc) = self1 \<and>
         fst (ping_command (snd (ping_command self1 conv system1 count proc))
                conv system1 count proc) =
         fst (ping_command self1 conv system1 count proc)"
proof -
  have "ping_try conv system1 count proc = ping_try conv system2 count proc"
    by (simp add: ping_try_def parse_times_platform [OF assms] split: proc_result.split)
  then show ?thesis
    by (simp add: ping_command_def split: sum.split)
qed

text \<open>
  One reply of 14.0 ms, parsed on macOS and on Linux from two different monitors.
\<close>
theorem ping_command_fixed_by_inputs_witness:
  "fst (ping_command main_monitor py_float ''darwin'' 1
          (Completed 0 ''64 bytes from 8.8.8.8: icmp_seq=0 ttl=117 time=14.0 ms''))
     = (Some 14, Some 0, 0) \<and>
   fst (ping_command (main_monitor\<lparr>last_speed_test := 1000, log_count := 7\<rparr>) py_float
          ''linux'' 1
          (Completed 0 ''64 bytes from 8.8.8.8: icmp_seq=0 ttl=117 time=14.0 ms''))
     = (Some 14, Some 0, 0)"
proof -
  have h: "(''darwin'' = ''windows'') = (''linux'' = ''windows'')"
    by simp
  have d: "fst (ping_command main_monitor py_float ''darwin'' 1
          (Completed 0 ''64 bytes from 8.8.8.8: icmp_seq=0 ttl=117 time=14.0 ms''))
     = (Some 14, Some 0, 0)"
    by (simp add: ping_command_def ping_try_def splitlines_def is_line_boundary_def
        line_time_def unix_token_def bind_err_def str_split_def py_index_def py_float_values
        statistics_mean_def)
  from ping_command_fixed_by_inputs [OF h, of main_monitor py_float 1
      "Completed 0 ''64 bytes from 8.8.8.8: icmp_seq=0 ttl=117 time=14.0 ms''"
      "main_monitor\<lparr>last_speed_test := 1000, log_count := 7\<rparr>"]
  have "fst (ping_command (main_monitor\<lparr>last_speed_test := 1000, log_count := 7\<rparr>) py_float
          ''linux'' 1
          (Completed 0 ''64 bytes from 8.8.8.8: icmp_seq=0 ttl=117 time=14.0 ms''))
     = fst (ping_command main_monitor py_float ''darwin'' 1
          (Completed 0 ''64 bytes from 8.8.8.8: icmp_seq=0 ttl=117 time=14.0 ms''))"
    by simp
  with d show ?thesis by simp
qed

text \<open>
  Claim C9 as the specification words it fails: the result is not fixed by the text and
  the count alone. The same reply line with the same count gives a ping of 14 ms when
  the platform is Windows and a total loss when it is Linux.
\<close>
theorem ping_command_platform_dependent:
  "fst (ping_command main_monitor py_float ''windows'' 1
          (Completed 0 ''Reply from 8.8.8.8: bytes=32 time=14ms TTL=117''))
     = (Some 14, Some 0, 0) \<and>
   fst (ping_command main_monitor py_float ''linux'' 1
          (Completed 0 ''Reply from 8.8.8.8: bytes=32 time=14ms TTL=117''))
     = (None, None, 100)"
  by (simp add: ping_command_def ping_try_def splitlines_def is_line_boundary_def
      line_time_def unix_token_def windows_token_def bind_err_def str_split_def py_index_def
      str_strip_def is_space_def py_float_values statistics_mean_def)

end
